theory Spec2Isabelle
  imports Complex_Main "HOL-Library.Multiset"
begin

section \<open>Timestamps\<close>

text \<open>
  A Python \<open>datetime\<close> is its wall-clock reading (microseconds since 1970-01-01T00:00:00 on
  that clock) and its \<open>tzinfo\<close>: \<open>None\<close> for a naive value, \<open>Some off\<close> for an aware value
  whose UTC offset is \<open>off\<close> microseconds.
\<close>

record datetime =
  wall :: int
  tzinfo :: "int option"

text \<open>\<open>datetime.now(timezone.utc)\<close>: an aware value with offset 0, at the instant \<open>n\<close>.\<close>

definition utc_now :: "int \<Rightarrow> datetime" where
  "utc_now n = \<lparr>wall = n, tzinfo = Some 0\<rparr>"

text \<open>
  The two lines every handler repeats:
  \<^verbatim>\<open>if expires_at.tzinfo is None: expires_at = expires_at.replace(tzinfo=timezone.utc)\<close>.
  \<open>replace\<close> keeps the wall-clock fields and attaches the zone.
\<close>

definition ensure_utc :: "datetime \<Rightarrow> datetime" where
  "ensure_utc d = (if tzinfo d = None then d\<lparr>tzinfo := Some 0\<rparr> else d)"

text \<open>
  Python's \<open>a <= b\<close> on datetimes: two aware values compare by instant, two naive values by
  wall clock, and a naive value against an aware one raises \<open>TypeError\<close> (the result
  \<open>None\<close>).
\<close>

definition dt_le :: "datetime \<Rightarrow> datetime \<Rightarrow> bool option" where
  "dt_le a b =
     (case (tzinfo a, tzinfo b) of
        (Some x, Some y) \<Rightarrow> Some (wall a - x \<le> wall b - y)
      | (None, None) \<Rightarrow> Some (wall a \<le> wall b)
      | _ \<Rightarrow> None)"

text \<open>The instant of a stored expiry, a naive value being read as UTC.\<close>

definition utc_instant :: "datetime \<Rightarrow> int" where
  "utc_instant d = (case tzinfo d of None \<Rightarrow> wall d | Some off \<Rightarrow> wall d - off)"

section \<open>Rows, requests, responses\<close>

record UserModel =
  uid :: int
  email :: string
  hashed_password :: string
  is_active :: bool
  group_id :: int

text \<open>
  The three token tables (activation, password reset, refresh) have the same columns:
  \<open>id\<close>, \<open>user_id\<close>, \<open>token\<close>, \<open>expires_at\<close>.
\<close>

record TokenModel =
  tid :: int
  user_id :: int
  token :: string
  expires_at :: datetime

record MovieModel =
  m_id :: int
  m_uuid :: string
  m_name :: string
  m_year :: int
  m_time :: int
  m_imdb :: real
  m_votes :: int
  m_meta_score :: "real option"
  m_gross :: "real option"
  m_description :: string
  m_price :: real
  m_certification_id :: int

record StarModel =
  s_id :: int
  s_name :: string

record DirectorModel =
  d_id :: int
  d_name :: string

text \<open>
  The database: one list of rows per table, in the order the store returns them. The
  association tables hold pairs: \<open>movie_stars\<close> and \<open>movie_directors\<close> are
  (movie id, other id), \<open>user_favorites\<close> is (user id, movie id).
\<close>

record database =
  users :: "UserModel list"
  activation_tokens :: "TokenModel list"
  password_reset_tokens :: "TokenModel list"
  refresh_tokens :: "TokenModel list"
  movies :: "MovieModel list"
  stars :: "StarModel list"
  directors :: "DirectorModel list"
  movie_stars :: "(int \<times> int) list"
  movie_directors :: "(int \<times> int) list"
  user_favorites :: "(int \<times> int) list"

text \<open>
  What a handler can raise: FastAPI's \<open>HTTPException\<close> (status code, detail, headers), or
  the request validation's error (status 422) when a declared constraint of a query
  parameter fails, or an exception no handler catches.
\<close>

datatype exn =
  HTTPException (status_code: int) (detail: string) (headers: "(string \<times> string) list")
  | RequestValidationError
  | TypeError
  | AttributeError

record ActivateUserRequestSchema =
  a_email :: string
  a_token :: string

record LoginRequestSchema =
  l_email :: string
  l_password :: string

record LoginResponseSchema =
  access_token :: string
  refresh_token :: string
  token_type :: string

text \<open>
  What the client receives: the status code and the JSON fields of the body. A route
  declared with \<open>response_model=MessageResponseSchema\<close> and \<open>status_code=c\<close> answers a
  returned message with \<open>c\<close>, an \<open>HTTPException\<close> with its own status code and detail, a
  failed request validation with 422 and any other exception with 500.
\<close>

record http_response =
  status :: int
  body :: "(string \<times> string) list"

definition error_response :: "exn \<Rightarrow> http_response" where
  "error_response e =
     (case e of
        HTTPException c d h \<Rightarrow> \<lparr>status = c, body = [(''detail'', d)]\<rparr>
      | RequestValidationError \<Rightarrow> \<lparr>status = 422, body = []\<rparr>
      | TypeError \<Rightarrow> \<lparr>status = 500, body = []\<rparr>
      | AttributeError \<Rightarrow> \<lparr>status = 500, body = []\<rparr>)"

definition message_response :: "int \<Rightarrow> exn + string \<Rightarrow> http_response" where
  "message_response success_code r =
     (case r of
        Inl e \<Rightarrow> error_response e
      | Inr msg \<Rightarrow> \<lparr>status = success_code, body = [(''message'', msg)]\<rparr>)"

section \<open>The query layer\<close>

text \<open>
  \<open>select(M).where(P)\<close> followed by \<open>.scalars().first()\<close> is the first row that satisfies
  \<open>P\<close> (\<open>find\<close>); \<open>delete(M).where(P)\<close> keeps the rows that do not satisfy \<open>P\<close>, and its
  \<open>rowcount\<close> is the number of rows that did.
\<close>

definition delete_where :: "('r \<Rightarrow> bool) \<Rightarrow> 'r list \<Rightarrow> 'r list" where
  "delete_where P rows = filter (\<lambda>r. \<not> P r) rows"

definition rowcount :: "('r \<Rightarrow> bool) \<Rightarrow> 'r list \<Rightarrow> int" where
  "rowcount P rows = int (length (filter P rows))"

section \<open>accounts.py: activate\_user\<close>

definition invalid_activation :: exn where
  "invalid_activation = HTTPException 400 ''Invalid or expired activation token.'' []"

text \<open>
  \<open>activate_user\<close>, at the instant \<open>now\<close>. The result is what the handler returns or
  raises, and the database as committed.
\<close>

definition activate_user ::
  "int \<Rightarrow> ActivateUserRequestSchema \<Rightarrow> database \<Rightarrow> (exn + string) \<times> database" where
  "activate_user now payload db =
     (case find (\<lambda>u. email u = a_email payload) (users db) of
        None \<Rightarrow> (Inl invalid_activation, db)
      | Some user \<Rightarrow>
          if is_active user
          then (Inl (HTTPException 400 ''User account is already active.'' []), db)
          else
            (case find (\<lambda>t. user_id t = uid user) (activation_tokens db) of
               None \<Rightarrow> (Inl invalid_activation, db)
             | Some token_record \<Rightarrow>
                 if token token_record \<noteq> a_token payload
                 then (Inl invalid_activation, db)
                 else
                   (case dt_le (ensure_utc (expires_at token_record)) (utc_now now) of
                      None \<Rightarrow> (Inl TypeError, db)
                    | Some True \<Rightarrow>
                        (Inl invalid_activation,
                         db\<lparr>activation_tokens :=
                              delete_where (\<lambda>t. tid t = tid token_record) (activation_tokens db)\<rparr>)
                    | Some False \<Rightarrow>
                        (Inr ''User account activated successfully.'',
                         db\<lparr>users :=
                              map (\<lambda>u. if uid u = uid user then u\<lparr>is_active := True\<rparr> else u)
                                (users db),
                            activation_tokens :=
                              delete_where (\<lambda>t. tid t = tid token_record) (activation_tokens db)\<rparr>))))"

section \<open>The token manager and the settings\<close>

text \<open>
  Token claims as the handlers use them: a dictionary from claim names to user identifiers
  (\<open>{"user_id": user.id}\<close>), read with \<open>.get\<close> (\<open>map_of\<close>).
\<close>

type_synonym claims = "(string \<times> int) list"

text \<open>
  \<open>JWTAuthManagerInterface\<close> is imported by the routers and its code is not part of the
  sources, so the manager is a parameter: a record of its four operations. An operation that
  can raise \<open>BaseSecurityError\<close> returns \<open>Inl\<close> of the error's message.
\<close>

record JWTAuthManagerInterface =
  create_access_token :: "claims \<Rightarrow> string"
  create_refresh_token :: "claims \<Rightarrow> string"
  decode_refresh_token :: "string \<Rightarrow> string + claims"
  verify_refresh_token_or_raise :: "string \<Rightarrow> string + unit"

record BaseAppSettings =
  LOGIN_TIME_DAYS :: int

definition default_settings :: BaseAppSettings where
  "default_settings = \<lparr>LOGIN_TIME_DAYS = 7\<rparr>"

section \<open>accounts.py: login\_user, logout\_user, refresh\_access\_token\<close>

text \<open>
  Modelled from the spec: \<open>RefreshTokenModel.create\<close> (the account models are not part of
  the sources). The spec: "an expiration timestamp computed at creation from a configured
  days-valid window", "expiry computed as now + configured days-valid". The identifier is
  the one the store assigns on insert, a parameter here.
\<close>

definition RefreshTokenModel_create :: "int \<Rightarrow> int \<Rightarrow> int \<Rightarrow> string \<Rightarrow> int \<Rightarrow> TokenModel" where
  "RefreshTokenModel_create new_id user days_valid tok now =
     \<lparr>tid = new_id, user_id = user, token = tok,
      expires_at = utc_now (now + days_valid * 86400000000)\<rparr>"

definition next_id :: "TokenModel list \<Rightarrow> int" where
  "next_id rows = fold max (map tid rows) 0 + 1"

text \<open>
  \<open>login_user\<close>. \<open>verify_password\<close> is \<open>UserModel.verify_password\<close>, a parameter for the
  same reason. The store's statements are taken to succeed (no \<open>SQLAlchemyError\<close>).
\<close>

definition login_user ::
  "(UserModel \<Rightarrow> string \<Rightarrow> bool) \<Rightarrow> JWTAuthManagerInterface \<Rightarrow> BaseAppSettings \<Rightarrow> int \<Rightarrow>
   LoginRequestSchema \<Rightarrow> database \<Rightarrow> (exn + LoginResponseSchema) \<times> database" where
  "login_user verify_password jwt_manager settings now payload db =
     (case find (\<lambda>u. email u = l_email payload) (users db) of
        None \<Rightarrow> (Inl (HTTPException 401 ''Invalid email or password.'' []), db)
      | Some user \<Rightarrow>
          if \<not> verify_password user (l_password payload)
          then (Inl (HTTPException 401 ''Invalid email or password.'' []), db)
          else if \<not> is_active user
          then (Inl (HTTPException 403 ''User account is not activated.'' []), db)
          else
            (let access = create_access_token jwt_manager [(''user_id'', uid user)];
                 refresh = create_refresh_token jwt_manager [(''user_id'', uid user)];
                 refresh_record =
                   RefreshTokenModel_create (next_id (refresh_tokens db)) (uid user)
                     (LOGIN_TIME_DAYS settings) refresh now
             in (Inr \<lparr>access_token = access, refresh_token = refresh, token_type = ''bearer''\<rparr>,
                 db\<lparr>refresh_tokens := refresh_tokens db @ [refresh_record]\<rparr>)))"

definition logout_user ::
  "JWTAuthManagerInterface \<Rightarrow> string \<Rightarrow> database \<Rightarrow> (exn + string) \<times> database" where
  "logout_user jwt_manager payload_refresh_token db =
     (case verify_refresh_token_or_raise jwt_manager payload_refresh_token of
        Inl e \<Rightarrow> (Inr ''Logged out.'', db)
      | Inr u \<Rightarrow>
          (Inr ''Logged out.'',
           db\<lparr>refresh_tokens :=
                delete_where (\<lambda>t. token t = payload_refresh_token) (refresh_tokens db)\<rparr>))"

text \<open>\<open>POST /logout/\<close> is declared with \<open>status_code=200\<close>.\<close>

definition logout_route :: "JWTAuthManagerInterface \<Rightarrow> string \<Rightarrow> database \<Rightarrow> http_response" where
  "logout_route jwt_manager payload_refresh_token db =
     message_response 200 (fst (logout_user jwt_manager payload_refresh_token db))"

record RefreshTokenResponseSchema =
  rt_access_token :: string

text \<open>
  \<open>refresh_access_token\<close>. Its last statement assigns the new access token to a local
  variable and the function ends there, so on that path the handler returns Python's \<open>None\<close>:
  the result \<open>Inr None\<close>.
\<close>

definition refresh_access_token ::
  "JWTAuthManagerInterface \<Rightarrow> int \<Rightarrow> string \<Rightarrow> database \<Rightarrow>
   (exn + RefreshTokenResponseSchema option) \<times> database" where
  "refresh_access_token jwt_manager now payload_refresh_token db =
     (case decode_refresh_token jwt_manager payload_refresh_token of
        Inl e \<Rightarrow> (Inl (HTTPException 400 e []), db)
      | Inr token_data \<Rightarrow>
          (let user_id = map_of token_data ''user_id'' in
           case find (\<lambda>t. token t = payload_refresh_token) (refresh_tokens db) of
             None \<Rightarrow> (Inl (HTTPException 401 ''Refresh token not found.'' []), db)
           | Some rt_record \<Rightarrow>
               (case find (\<lambda>u. Some (uid u) = user_id) (users db) of
                  None \<Rightarrow> (Inl (HTTPException 401 ''User not found or inactive.'' []), db)
                | Some user \<Rightarrow>
                    if \<not> is_active user
                    then (Inl (HTTPException 401 ''User not found or inactive.'' []), db)
                    else
                      (case dt_le (ensure_utc (expires_at rt_record)) (utc_now now) of
                         None \<Rightarrow> (Inl TypeError, db)
                       | Some True \<Rightarrow>
                           (Inl (HTTPException 401 ''Refresh token expired.'' []),
                            db\<lparr>refresh_tokens :=
                                 delete_where (\<lambda>t. tid t = tid rt_record) (refresh_tokens db)\<rparr>)
                       | Some False \<Rightarrow>
                           (let access_token_local =
                                  create_access_token jwt_manager [(''user_id'', uid user)]
                            in (Inr None, db))))))"

text \<open>
  What the client receives from \<open>POST /refresh/\<close>: the route is declared with
  \<open>response_model=RefreshTokenResponseSchema\<close> and \<open>status_code=200\<close>. The framework
  validates the returned value against the response model: \<open>None\<close> is not a
  \<open>RefreshTokenResponseSchema\<close>, which is a 500 like any uncaught exception.
\<close>

definition refresh_route ::
  "JWTAuthManagerInterface \<Rightarrow> int \<Rightarrow> string \<Rightarrow> database \<Rightarrow> http_response" where
  "refresh_route jwt_manager now payload_refresh_token db =
     (case fst (refresh_access_token jwt_manager now payload_refresh_token db) of
        Inl e \<Rightarrow> error_response e
      | Inr None \<Rightarrow> \<lparr>status = 500, body = []\<rparr>
      | Inr (Some r) \<Rightarrow> \<lparr>status = 200, body = [(''access_token'', rt_access_token r)]\<rparr>)"

section \<open>accounts.py: reset\_password\_complete\<close>

record PasswordResetCompleteRequestSchema =
  p_email :: string
  p_token :: string
  p_password :: string

definition invalid_reset :: exn where
  "invalid_reset = HTTPException 400 ''Invalid email or token.'' []"

text \<open>
  \<open>reset_password_complete\<close>, the sibling of \<open>activate_user\<close> for password reset tokens.
  \<open>user.password = ...\<close> goes through the model's hashing setter, the parameter
  \<open>hash_password\<close>. The store's statements are taken to succeed.
\<close>

definition reset_password_complete ::
  "(string \<Rightarrow> string) \<Rightarrow> int \<Rightarrow> PasswordResetCompleteRequestSchema \<Rightarrow> database \<Rightarrow>
   (exn + string) \<times> database" where
  "reset_password_complete hash_password now payload db =
     (case find (\<lambda>u. email u = p_email payload) (users db) of
        None \<Rightarrow> (Inl invalid_reset, db)
      | Some user \<Rightarrow>
          if \<not> is_active user then (Inl invalid_reset, db)
          else
            (case find (\<lambda>t. user_id t = uid user) (password_reset_tokens db) of
               None \<Rightarrow> (Inl invalid_reset, db)
             | Some token_record \<Rightarrow>
                 if token token_record \<noteq> p_token payload
                 then (Inl invalid_reset,
                       db\<lparr>password_reset_tokens :=
                            delete_where (\<lambda>t. tid t = tid token_record)
                              (password_reset_tokens db)\<rparr>)
                 else
                   (case dt_le (ensure_utc (expires_at token_record)) (utc_now now) of
                      None \<Rightarrow> (Inl TypeError, db)
                    | Some True \<Rightarrow>
                        (Inl invalid_reset,
                         db\<lparr>password_reset_tokens :=
                              delete_where (\<lambda>t. tid t = tid token_record)
                                (password_reset_tokens db)\<rparr>)
                    | Some False \<Rightarrow>
                        (Inr ''Password reset successfully.'',
                         db\<lparr>users :=
                              map (\<lambda>u. if uid u = uid user
                                       then u\<lparr>hashed_password := hash_password (p_password payload)\<rparr>
                                       else u)
                                (users db),
                            password_reset_tokens :=
                              delete_where (\<lambda>t. tid t = tid token_record)
                                (password_reset_tokens db)\<rparr>))))"

section \<open>dependencies.py: get\_current\_user\<close>

definition SECRET_KEY :: string where
  "SECRET_KEY = ''YOUR_SECRET_KEY''"

definition ALGORITHM :: string where
  "ALGORITHM = ''HS256''"

definition credentials_exception :: exn where
  "credentials_exception =
     HTTPException 401 ''Could not validate credentials'' [(''WWW-Authenticate'', ''Bearer'')]"

text \<open>
  \<open>oauth2_scheme = OAuth2PasswordBearer(tokenUrl="/auth/login")\<close>, the dependency that
  supplies \<open>token\<close>. Its argument is the credential of the request's \<open>Authorization: Bearer\<close>
  header, \<open>None\<close> when the request has no such header; FastAPI's scheme then raises 401
  "Not authenticated" with the header \<open>WWW-Authenticate: Bearer\<close>.
\<close>

definition oauth2_scheme :: "string option \<Rightarrow> exn + string" where
  "oauth2_scheme authorization =
     (case authorization of
        None \<Rightarrow> Inl (HTTPException 401 ''Not authenticated'' [(''WWW-Authenticate'', ''Bearer'')])
      | Some param \<Rightarrow> Inr param)"

text \<open>
  The session \<open>db\<close> is the one \<open>Depends(get_db)\<close> gives to every handler of the routers,
  which await each of its calls: an \<open>AsyncSession\<close>. \<open>get_current_user\<close> is a plain \<open>def\<close>
  and calls \<open>db.get(UserModel, user_id)\<close> without awaiting it, so \<open>user\<close> is bound to the
  coroutine object of the call, not to a row and not to \<open>None\<close>. A value of that variable is
  therefore one of three things: \<open>None\<close>, a loaded row, or the coroutine of a lookup that
  has not run (holding what awaiting it would deliver).
\<close>

datatype py_user = PyNone | PyUser UserModel | PyCoroutine "UserModel option"

definition AsyncSession_get :: "database \<Rightarrow> int \<Rightarrow> py_user" where
  "AsyncSession_get db pk = PyCoroutine (find (\<lambda>u. uid u = pk) (users db))"

text \<open>
  \<open>user.is_active\<close>: the column of a loaded row; \<open>None\<close> and a coroutine object have no such
  attribute, and the access raises \<open>AttributeError\<close>.
\<close>

definition getattr_is_active :: "py_user \<Rightarrow> exn + bool" where
  "getattr_is_active v =
     (case v of
        PyNone \<Rightarrow> Inl AttributeError
      | PyUser u \<Rightarrow> Inr (is_active u)
      | PyCoroutine c \<Rightarrow> Inl AttributeError)"

text \<open>
  \<open>get_current_user\<close>. \<open>jwt_decode\<close> is the library's \<open>jwt.decode(token, key, algorithms)\<close>,
  a parameter: \<open>None\<close> when it raises \<open>JWTError\<close>, the payload otherwise. In
  \<open>user is None or not user.is_active\<close> the second operand is evaluated when the first is
  false.
\<close>

definition get_current_user ::
  "(string \<Rightarrow> string \<Rightarrow> string list \<Rightarrow> claims option) \<Rightarrow> string option \<Rightarrow> database \<Rightarrow>
   exn + py_user" where
  "get_current_user jwt_decode authorization db =
     (case oauth2_scheme authorization of
        Inl e \<Rightarrow> Inl e
      | Inr tok \<Rightarrow>
          (case jwt_decode tok SECRET_KEY [ALGORITHM] of
             None \<Rightarrow> Inl credentials_exception
           | Some payload \<Rightarrow>
               (case map_of payload ''sub'' of
                  None \<Rightarrow> Inl credentials_exception
                | Some sub \<Rightarrow>
                    (let user = AsyncSession_get db sub in
                     if user = PyNone then Inl credentials_exception
                     else
                       (case getattr_is_active user of
                          Inl e \<Rightarrow> Inl e
                        | Inr active \<Rightarrow>
                            if \<not> active then Inl credentials_exception else Inr user)))))"

section \<open>cleanup.py: cleanup\_expired\_tokens\<close>

text \<open>
  The store evaluates \<open>model.expires_at <= now\<close>, \<open>now\<close> being \<open>datetime.now(timezone.utc)\<close>:
  the comparison of the stored expiry's instant with the instant \<open>now\<close>.
\<close>

definition expired_at :: "int \<Rightarrow> TokenModel \<Rightarrow> bool" where
  "expired_at now t = (utc_instant (expires_at t) \<le> now)"

text \<open>
  \<open>cleanup_expired_tokens\<close>: the loop over the three models, unrolled in the order of the
  tuple; \<open>res.rowcount or 0\<close> is the row count (never negative). The result is the returned
  total and the database after the commit.
\<close>

definition cleanup_expired_tokens :: "int \<Rightarrow> database \<Rightarrow> int \<times> database" where
  "cleanup_expired_tokens now db =
     (let total0 = 0;
          total1 = total0 + rowcount (expired_at now) (activation_tokens db);
          db1 = db\<lparr>activation_tokens := delete_where (expired_at now) (activation_tokens db)\<rparr>;
          total2 = total1 + rowcount (expired_at now) (password_reset_tokens db1);
          db2 = db1\<lparr>password_reset_tokens :=
                      delete_where (expired_at now) (password_reset_tokens db1)\<rparr>;
          total3 = total2 + rowcount (expired_at now) (refresh_tokens db2);
          db3 = db2\<lparr>refresh_tokens := delete_where (expired_at now) (refresh_tokens db2)\<rparr>
      in (total3, db3))"

section \<open>movies.py: get\_movies\<close>

text \<open>
  The query parameters of \<open>GET /movies/\<close>. An \<open>Optional\<close> parameter the request leaves out
  is \<open>None\<close>. The float parameters and columns are real numbers (finite values only).
\<close>

record MovieQuery =
  q_page :: int
  q_size :: int
  q_year :: "int option"
  q_min_imdb :: "real option"
  q_max_price :: "real option"
  q_search :: "string option"
  q_sort_by :: string

text \<open>
  The constraints the signature declares: \<open>page: ge=1\<close>, \<open>size: ge=1, le=100\<close>,
  \<open>min_imdb: ge=0, le=10\<close>, \<open>sort_by: pattern ^(year|price|imdb|votes)$\<close>. A request that
  fails one is answered by the framework and the handler does not run.
\<close>

definition valid_query :: "MovieQuery \<Rightarrow> bool" where
  "valid_query q =
     (1 \<le> q_page q \<and> 1 \<le> q_size q \<and> q_size q \<le> 100 \<and>
      (case q_min_imdb q of None \<Rightarrow> True | Some v \<Rightarrow> 0 \<le> v \<and> v \<le> 10) \<and>
      q_sort_by q \<in> set [''year'', ''price'', ''imdb'', ''votes''])"

text \<open>\<open>getattr(MovieModel, sort_by)\<close>, as the value the rows are ordered by.\<close>

definition sort_column :: "string \<Rightarrow> (MovieModel \<Rightarrow> real) option" where
  "sort_column name =
     (if name = ''year'' then Some (\<lambda>m. real_of_int (m_year m))
      else if name = ''price'' then Some m_price
      else if name = ''imdb'' then Some m_imdb
      else if name = ''votes'' then Some (\<lambda>m. real_of_int (m_votes m))
      else None)"

text \<open>
  The text functions the search uses are not the repository's: Python's \<open>str.lower\<close>, and
  SQL's \<open>lower\<close> and \<open>LIKE\<close> (value first, pattern second). They are parameters.
\<close>

record text_ops =
  str_lower :: "string \<Rightarrow> string"
  func_lower :: "string \<Rightarrow> string"
  like :: "string \<Rightarrow> string \<Rightarrow> bool"

text \<open>
  The search condition on one movie: the two outer joins give one row per pair of a star
  and a director of the movie (with nulls when it has none), the \<open>or_\<close> keeps the rows where
  one of the four columns matches, and \<open>distinct\<close> makes the movie appear once.
\<close>

definition stars_of :: "database \<Rightarrow> MovieModel \<Rightarrow> StarModel list" where
  "stars_of db m = filter (\<lambda>s. (m_id m, s_id s) \<in> set (movie_stars db)) (stars db)"

definition directors_of :: "database \<Rightarrow> MovieModel \<Rightarrow> DirectorModel list" where
  "directors_of db m = filter (\<lambda>d. (m_id m, d_id d) \<in> set (movie_directors db)) (directors db)"

definition search_matches :: "text_ops \<Rightarrow> database \<Rightarrow> string \<Rightarrow> MovieModel \<Rightarrow> bool" where
  "search_matches ops db search_term m =
     (like ops (func_lower ops (m_name m)) search_term \<or>
      like ops (func_lower ops (m_description m)) search_term \<or>
      list_ex (\<lambda>s. like ops (func_lower ops (s_name s)) search_term) (stars_of db m) \<or>
      list_ex (\<lambda>d. like ops (func_lower ops (d_name d)) search_term) (directors_of db m))"

record MovieListItemSchema =
  i_id :: int
  i_uuid :: string
  i_name :: string
  i_year :: int
  i_imdb :: real
  i_price :: real

definition model_validate :: "MovieModel \<Rightarrow> MovieListItemSchema" where
  "model_validate m =
     \<lparr>i_id = m_id m, i_uuid = m_uuid m, i_name = m_name m, i_year = m_year m,
      i_imdb = m_imdb m, i_price = m_price m\<rparr>"

record MovieListResponseSchema =
  items :: "MovieListItemSchema list"
  total :: int
  r_page :: int
  pages :: int

text \<open>
  The statement \<open>get_movies\<close> builds, as the rows it selects: each \<open>where\<close> is a filter that
  is added when the parameter is truthy (\<open>if year:\<close> is false for \<open>None\<close> and for 0,
  \<open>if search:\<close> for \<open>None\<close> and for the empty string), then \<open>order_by(sort_column.desc())\<close>.
  Rows with equal sort values keep the table's order.
\<close>

definition movies_where :: "text_ops \<Rightarrow> MovieQuery \<Rightarrow> database \<Rightarrow> MovieModel list" where
  "movies_where ops q db =
     (let stmt = movies db;
          stmt = (case q_year q of
                    None \<Rightarrow> stmt
                  | Some y \<Rightarrow> if y \<noteq> 0 then filter (\<lambda>m. m_year m = y) stmt else stmt);
          stmt = (case q_min_imdb q of
                    None \<Rightarrow> stmt
                  | Some v \<Rightarrow> if v \<noteq> 0 then filter (\<lambda>m. m_imdb m \<ge> v) stmt else stmt);
          stmt = (case q_max_price q of
                    None \<Rightarrow> stmt
                  | Some v \<Rightarrow> if v \<noteq> 0 then filter (\<lambda>m. m_price m \<le> v) stmt else stmt);
          stmt = (case q_search q of
                    None \<Rightarrow> stmt
                  | Some s \<Rightarrow>
                      if s \<noteq> []
                      then remdups
                             (filter (search_matches ops db (''%'' @ str_lower ops s @ ''%'')) stmt)
                      else stmt)
      in stmt)"

definition order_by_desc :: "(MovieModel \<Rightarrow> real) \<Rightarrow> MovieModel list \<Rightarrow> MovieModel list" where
  "order_by_desc col rows = sort_key (\<lambda>m. - col m) rows"

text \<open>\<open>ceil(total / size) if total else 1\<close>.\<close>

definition page_count :: "int \<Rightarrow> int \<Rightarrow> int" where
  "page_count n sz = (if n \<noteq> 0 then \<lceil>real_of_int n / real_of_int sz\<rceil> else 1)"

definition get_movies ::
  "text_ops \<Rightarrow> MovieQuery \<Rightarrow> database \<Rightarrow> exn + MovieListResponseSchema" where
  "get_movies ops q db =
     (if \<not> valid_query q then Inl RequestValidationError
      else
        (case sort_column (q_sort_by q) of
           None \<Rightarrow> Inl AttributeError
         | Some col \<Rightarrow>
             (let stmt = order_by_desc col (movies_where ops q db);
                  total_rows = int (length stmt);
                  n_pages = page_count total_rows (q_size q);
                  stmt = take (nat (q_size q)) (drop (nat ((q_page q - 1) * q_size q)) stmt)
              in Inr \<lparr>items = map model_validate stmt, total = total_rows,
                      r_page = q_page q, pages = n_pages\<rparr>)))"

section \<open>movies.py: add\_to\_favorites, remove\_from\_favorites\<close>

text \<open>
  \<open>user.favorites\<close> after \<open>db.refresh(user)\<close>: the movies the association table links to
  the user. \<open>db.get(MovieModel, movie_id)\<close> is the row with that primary key.
\<close>

definition favorites :: "database \<Rightarrow> UserModel \<Rightarrow> MovieModel list" where
  "favorites db user = filter (\<lambda>m. (uid user, m_id m) \<in> set (user_favorites db)) (movies db)"

definition add_to_favorites ::
  "int \<Rightarrow> UserModel \<Rightarrow> database \<Rightarrow> (exn + string) \<times> database" where
  "add_to_favorites movie_id user db =
     (case find (\<lambda>m. m_id m = movie_id) (movies db) of
        None \<Rightarrow> (Inl (HTTPException 404 ''Movie not found'' []), db)
      | Some movie \<Rightarrow>
          if movie \<notin> set (favorites db user)
          then (Inr ''Added to favorites'',
                db\<lparr>user_favorites := user_favorites db @ [(uid user, m_id movie)]\<rparr>)
          else (Inr ''Added to favorites'', db))"

definition remove_from_favorites ::
  "int \<Rightarrow> UserModel \<Rightarrow> database \<Rightarrow> (exn + string) \<times> database" where
  "remove_from_favorites movie_id user db =
     (case find (\<lambda>m. m_id m = movie_id) (movies db) of
        None \<Rightarrow> (Inl (HTTPException 404 ''Movie not found'' []), db)
      | Some movie \<Rightarrow>
          if movie \<in> set (favorites db user)
          then (Inr ''Removed from favorites'',
                db\<lparr>user_favorites :=
                     delete_where (\<lambda>r. r = (uid user, m_id movie)) (user_favorites db)\<rparr>)
          else (Inr ''Removed from favorites'', db))"

section \<open>A small database\<close>

text \<open>
  Two users (the first not yet activated), a token of each kind, three movies. The stored
  expiries are naive, as a store without time zones returns them.
\<close>

definition alice :: UserModel where
  "alice = \<lparr>uid = 1, email = ''alice@example.com'', hashed_password = ''hash-a'',
            is_active = False, group_id = 1\<rparr>"

definition bob :: UserModel where
  "bob = \<lparr>uid = 2, email = ''bob@example.com'', hashed_password = ''hash-b'',
          is_active = True, group_id = 1\<rparr>"

definition alice_activation :: TokenModel where
  "alice_activation =
     \<lparr>tid = 1, user_id = 1, token = ''act-alice'', expires_at = \<lparr>wall = 1000, tzinfo = None\<rparr>\<rparr>"

definition bob_reset :: TokenModel where
  "bob_reset =
     \<lparr>tid = 1, user_id = 2, token = ''reset-bob'', expires_at = \<lparr>wall = 3000, tzinfo = None\<rparr>\<rparr>"

definition bob_refresh :: TokenModel where
  "bob_refresh =
     \<lparr>tid = 1, user_id = 2, token = ''rt-bob'', expires_at = \<lparr>wall = 5000, tzinfo = None\<rparr>\<rparr>"

definition bob_refresh_old :: TokenModel where
  "bob_refresh_old =
     \<lparr>tid = 2, user_id = 2, token = ''rt-bob-old'', expires_at = \<lparr>wall = 500, tzinfo = None\<rparr>\<rparr>"

definition mk_movie :: "int \<Rightarrow> string \<Rightarrow> int \<Rightarrow> real \<Rightarrow> real \<Rightarrow> MovieModel" where
  "mk_movie i n y r p =
     \<lparr>m_id = i, m_uuid = n, m_name = n, m_year = y, m_time = 100, m_imdb = r, m_votes = 10,
      m_meta_score = None, m_gross = None, m_description = n, m_price = p,
      m_certification_id = 1\<rparr>"

definition small_db :: database where
  "small_db =
     \<lparr>users = [alice, bob],
      activation_tokens = [alice_activation],
      password_reset_tokens = [bob_reset],
      refresh_tokens = [bob_refresh, bob_refresh_old],
      movies = [mk_movie 1 ''a'' 2000 7 5, mk_movie 2 ''b'' 2010 8 9, mk_movie 3 ''c'' 2020 6 7],
      stars = [],
      directors = [],
      movie_stars = [],
      movie_directors = [],
      user_favorites = [(2, 1)]\<rparr>"

definition small_jwt :: JWTAuthManagerInterface where
  "small_jwt =
     \<lparr>create_access_token = (\<lambda>c. ''access'' @ concat (map fst c)),
      create_refresh_token = (\<lambda>c. ''refresh'' @ concat (map fst c)),
      decode_refresh_token =
        (\<lambda>t. if t = ''rt-bob'' \<or> t = ''rt-bob-old'' then Inr [(''user_id'', 2)]
             else Inl ''Invalid token''),
      verify_refresh_token_or_raise =
        (\<lambda>t. if t = ''rt-bob'' \<or> t = ''rt-bob-old'' then Inr () else Inl ''Invalid token'')\<rparr>"

definition small_decode :: "string \<Rightarrow> string \<Rightarrow> string list \<Rightarrow> claims option" where
  "small_decode t key algs =
     (if t = ''at-bob'' then Some [(''sub'', 2)]
      else if t = ''at-alice'' then Some [(''sub'', 1)]
      else if t = ''at-nosub'' then Some [(''user_id'', 2)]
      else if t = ''at-ghost'' then Some [(''sub'', 99)]
      else None)"

definition small_verify :: "UserModel \<Rightarrow> string \<Rightarrow> bool" where
  "small_verify u pw = (hashed_password u = ''hash-'' @ pw)"

definition small_ops :: text_ops where
  "small_ops = \<lparr>str_lower = (\<lambda>s. s), func_lower = (\<lambda>s. s), like = (\<lambda>v p. p = ''%'' @ v @ ''%'')\<rparr>"

definition small_query :: MovieQuery where
  "small_query =
     \<lparr>q_page = 2, q_size = 1, q_year = None, q_min_imdb = None, q_max_price = None,
      q_search = None, q_sort_by = ''year''\<rparr>"

section \<open>Timestamps and deletions: facts\<close>

lemma ensure_utc_aware: "tzinfo (ensure_utc d) \<noteq> None"
  by (simp add: ensure_utc_def)

lemma dt_le_ensure_utc:
  "dt_le (ensure_utc d) (utc_now n) = Some (utc_instant d \<le> n)"
  by (cases "tzinfo d") (simp_all add: dt_le_def ensure_utc_def utc_now_def utc_instant_def)

lemma delete_where_absent: "\<not> (\<exists>r \<in> set (delete_where P rows). P r)"
  by (simp add: delete_where_def)

section \<open>The small database: lookups\<close>

lemma lookup_alice: "find (\<lambda>u. email u = ''alice@example.com'') (users small_db) = Some alice"
  by (simp add: small_db_def alice_def bob_def)

lemma alice_token: "find (\<lambda>t. user_id t = uid alice) (activation_tokens small_db) = Some alice_activation"
  by (simp add: small_db_def alice_def alice_activation_def)

lemma lookup_bob: "find (\<lambda>u. email u = ''bob@example.com'') (users small_db) = Some bob"
  by (simp add: small_db_def alice_def bob_def)

lemma lookup_nobody: "find (\<lambda>u. email u = ''carol@example.com'') (users small_db) = None"
  by (simp add: small_db_def alice_def bob_def)

lemma get_bob: "find (\<lambda>u. uid u = 2) (users small_db) = Some bob"
  by (simp add: small_db_def alice_def bob_def)

lemma find_bob_refresh:
  "find (\<lambda>t. token t = ''rt-bob'') (refresh_tokens small_db) = Some bob_refresh"
  by (simp add: small_db_def bob_refresh_def)

section \<open>The bearer-auth dependency: what it returns\<close>

text \<open>
  The paths before the lookup raise 401 with the header \<open>WWW-Authenticate: Bearer\<close>. Once
  the token decodes and carries a subject, the lookup is a coroutine object whatever the
  users table holds, and the dependency raises \<open>AttributeError\<close>; it returns for no request.
\<close>

lemma get_current_user_unauthorized:
  assumes "authorization = None
     \<or> (\<exists>tok. authorization = Some tok
          \<and> (jwt_decode tok SECRET_KEY [ALGORITHM] = None
             \<or> (\<exists>payload. jwt_decode tok SECRET_KEY [ALGORITHM] = Some payload
                  \<and> map_of payload ''sub'' = None)))"
  shows "\<exists>d. get_current_user jwt_decode authorization db =
           Inl (HTTPException 401 d [(''WWW-Authenticate'', ''Bearer'')])"
  using assms
  by (auto simp: get_current_user_def oauth2_scheme_def credentials_exception_def)

lemma get_current_user_decoded:
  assumes "jwt_decode tok SECRET_KEY [ALGORITHM] = Some payload"
    and "map_of payload ''sub'' = Some sub"
  shows "get_current_user jwt_decode (Some tok) db = Inl AttributeError"
  using assms
  by (simp add: get_current_user_def oauth2_scheme_def AsyncSession_get_def
      getattr_is_active_def)

lemma get_current_user_no_user: "get_current_user jwt_decode authorization db \<noteq> Inr v"
  by (simp add: get_current_user_def oauth2_scheme_def AsyncSession_get_def
      getattr_is_active_def Let_def split: option.splits)

section \<open>Refresh: what the handler returns\<close>

text \<open>
  No request makes \<open>refresh_access_token\<close> return a response body, and the request the
  endpoint is for (a decodable, persisted, unexpired token of an active user) makes it
  return \<open>None\<close>, which the route answers with 500.
\<close>

lemma refresh_access_token_body:
  "fst (refresh_access_token jwt_manager now tok db) \<noteq> Inr (Some r)"
  by (simp add: refresh_access_token_def Let_def split: sum.splits option.splits bool.splits)

lemma refresh_access_token_valid:
  assumes "decode_refresh_token jwt_manager tok = Inr token_data"
    and "find (\<lambda>t. token t = tok) (refresh_tokens db) = Some rt_record"
    and "find (\<lambda>u. Some (uid u) = map_of token_data ''user_id'') (users db) = Some user"
    and "is_active user"
    and "dt_le (ensure_utc (expires_at rt_record)) (utc_now now) = Some False"
  shows "refresh_access_token jwt_manager now tok db = (Inr None, db)"
    and "status (refresh_route jwt_manager now tok db) = 500"
  using assms by (simp_all add: refresh_access_token_def refresh_route_def)

section \<open>Cleanup: row counts\<close>

lemma rowcount_deleted:
  "rowcount P rows = int (length rows) - int (length (delete_where P rows))"
proof -
  have "length rows = length (filter P rows) + length (filter (\<lambda>r. \<not> P r) rows)"
    by (rule sum_length_filter_compl [symmetric])
  then show ?thesis
    by (simp add: rowcount_def delete_where_def)
qed

lemma rowcount_none: "\<not> list_ex P rows \<Longrightarrow> rowcount P rows = 0"
  by (simp add: rowcount_def list_ex_iff)

lemma delete_where_none: "\<not> list_ex P rows \<Longrightarrow> delete_where P rows = rows"
  by (simp add: delete_where_def list_ex_iff filter_id_conv)

lemma list_ex_delete_where: "\<not> list_ex P (delete_where P rows)"
  by (simp add: delete_where_def list_ex_iff)

lemma cleanup_nothing_expired:
  assumes "\<not> list_ex (expired_at now) (activation_tokens db)"
    and "\<not> list_ex (expired_at now) (password_reset_tokens db)"
    and "\<not> list_ex (expired_at now) (refresh_tokens db)"
  shows "cleanup_expired_tokens now db = (0, db)"
  using assms
  by (simp add: cleanup_expired_tokens_def Let_def rowcount_none delete_where_none)

section \<open>Favorites: membership\<close>

lemma find_by_id:
  "find (\<lambda>m. m_id m = movie_id) ms = Some movie \<Longrightarrow> movie \<in> set ms \<and> m_id movie = movie_id"
  by (auto simp: find_Some_iff)

lemma favorite_iff:
  assumes "find (\<lambda>m. m_id m = movie_id) (movies db) = Some movie"
  shows "movie \<in> set (favorites db user) \<longleftrightarrow> (uid user, movie_id) \<in> set (user_favorites db)"
  using find_by_id [OF assms] by (auto simp: favorites_def)

lemma count_list_distinct: "distinct xs \<Longrightarrow> x \<in> set xs \<Longrightarrow> count_list xs x = 1"
  by (induction xs) (auto simp: count_list_0_iff)

lemma add_to_favorites_result:
  assumes "find (\<lambda>m. m_id m = movie_id) (movies db) = Some movie"
  shows "add_to_favorites movie_id user db =
           (Inr ''Added to favorites'',
            if (uid user, movie_id) \<in> set (user_favorites db) then db
            else db\<lparr>user_favorites := user_favorites db @ [(uid user, movie_id)]\<rparr>)"
  using favorite_iff [OF assms, of user] find_by_id [OF assms] assms
  by (simp add: add_to_favorites_def)

lemma find_movie_2: "find (\<lambda>m. m_id m = 2) (movies small_db) = Some (mk_movie 2 ''b'' 2010 8 9)"
  by (simp add: small_db_def mk_movie_def)

section \<open>Movie list: pages and order\<close>

lemma page_count_bounds:
  assumes "0 < n" and "1 \<le> sz"
  shows "(page_count n sz - 1) * sz < n" and "n \<le> page_count n sz * sz" and "1 \<le> page_count n sz"
proof -
  let ?x = "real_of_int n / real_of_int sz"
  have sz: "0 < real_of_int sz" using assms(2) by simp
  have pc: "page_count n sz = \<lceil>?x\<rceil>" using assms(1) by (simp add: page_count_def)
  have eqn: "?x * real_of_int sz = real_of_int n" using sz by simp
  have up: "?x \<le> real_of_int \<lceil>?x\<rceil>" by (rule le_of_int_ceiling)
  have lo: "real_of_int \<lceil>?x\<rceil> - 1 < ?x" by linarith
  have "?x * real_of_int sz \<le> real_of_int \<lceil>?x\<rceil> * real_of_int sz"
    by (rule mult_right_mono [OF up]) (use sz in simp)
  then have "real_of_int n \<le> real_of_int (\<lceil>?x\<rceil> * sz)"
    unfolding eqn by simp
  then show "n \<le> page_count n sz * sz" unfolding pc by linarith
  have "(real_of_int \<lceil>?x\<rceil> - 1) * real_of_int sz < ?x * real_of_int sz"
    by (rule mult_strict_right_mono [OF lo sz])
  then have "real_of_int ((\<lceil>?x\<rceil> - 1) * sz) < real_of_int n"
    unfolding eqn by simp
  then show "(page_count n sz - 1) * sz < n" unfolding pc by linarith
  have "0 < ?x" using assms(1) sz by simp
  then have "0 < \<lceil>?x\<rceil>" by (simp add: ceiling_less_iff)
  then show "1 \<le> page_count n sz" unfolding pc by simp
qed

lemma order_by_desc_mset: "mset (order_by_desc col rows) = mset rows"
  by (simp add: order_by_desc_def)

lemma order_by_desc_length: "length (order_by_desc col rows) = length rows"
  by (simp add: order_by_desc_def)

lemma order_by_desc_sorted: "sorted_wrt (\<lambda>a b. col b \<le> col a) (order_by_desc col rows)"
proof -
  have "sorted (map (\<lambda>m. - col m) (sort_key (\<lambda>m. - col m) rows))"
    by (rule sorted_sort_key)
  then show ?thesis
    by (simp add: order_by_desc_def sorted_map)
qed

lemma valid_query_sort_column: "valid_query q \<Longrightarrow> \<exists>col. sort_column (q_sort_by q) = Some col"
  by (auto simp: valid_query_def sort_column_def)

lemma get_movies_valid:
  assumes "valid_query q" and "sort_column (q_sort_by q) = Some col"
  shows "get_movies ops q db =
    Inr \<lparr>items = map model_validate
            (take (nat (q_size q)) (drop (nat ((q_page q - 1) * q_size q))
               (order_by_desc col (movies_where ops q db)))),
         total = int (length (movies_where ops q db)),
         r_page = q_page q,
         pages = page_count (int (length (movies_where ops q db))) (q_size q)\<rparr>"
  using assms by (simp add: get_movies_def Let_def order_by_desc_length)

lemma small_movies_where:
  "movies_where small_ops small_query small_db =
     [mk_movie 1 ''a'' 2000 7 5, mk_movie 2 ''b'' 2010 8 9, mk_movie 3 ''c'' 2020 6 7]"
  by (simp add: movies_where_def small_query_def small_db_def)

lemma small_sorted:
  "order_by_desc (\<lambda>m. real_of_int (m_year m))
     [mk_movie 1 ''a'' 2000 7 5, mk_movie 2 ''b'' 2010 8 9, mk_movie 3 ''c'' 2020 6 7] =
     [mk_movie 3 ''c'' 2020 6 7, mk_movie 2 ''b'' 2010 8 9, mk_movie 1 ''a'' 2000 7 5]"
  by (simp add: order_by_desc_def mk_movie_def)

section \<open>Password reset: the mismatch path\<close>

text \<open>
  Unlike activation, completing a password reset with a wrong token string deletes the
  stored reset token before it fails.
\<close>

lemma reset_password_complete_mismatch_deletes:
  assumes "find (\<lambda>u. email u = p_email payload) (users db) = Some user"
    and "is_active user"
    and "find (\<lambda>t. user_id t = uid user) (password_reset_tokens db) = Some token_record"
    and "token token_record \<noteq> p_token payload"
  shows "reset_password_complete hash_password now payload db =
           (Inl (HTTPException 400 ''Invalid email or token.'' []),
            db\<lparr>password_reset_tokens :=
                 filter (\<lambda>t. tid t \<noteq> tid token_record) (password_reset_tokens db)\<rparr>)"
  using assms by (simp add: reset_password_complete_def invalid_reset_def delete_where_def)

section \<open>Activation\<close>

text \<open>
  C10. For every activation request where the user exists and is inactive and the stored
  activation token the endpoint selects for that user has a token string different from
  the supplied one, the endpoint fails with 400 (the generic invalid-or-expired message)
  and the database is unchanged: the stored token row still exists and the user remains
  inactive.
\<close>

theorem activate_user_mismatch_unchanged:
  assumes "find (\<lambda>u. email u = a_email payload) (users db) = Some user"
    and "\<not> is_active user"
    and "find (\<lambda>t. user_id t = uid user) (activation_tokens db) = Some token_record"
    and "token token_record \<noteq> a_token payload"
  shows "activate_user now payload db =
           (Inl (HTTPException 400 ''Invalid or expired activation token.'' []), db)
         \<and> token_record \<in> set (activation_tokens (snd (activate_user now payload db)))
         \<and> find (\<lambda>u. email u = a_email payload) (users (snd (activate_user now payload db)))
             = Some user"
proof -
  have r: "activate_user now payload db = (Inl invalid_activation, db)"
    using assms by (simp add: activate_user_def)
  have "token_record \<in> set (activation_tokens db)"
    using assms(3) by (auto simp: find_Some_iff)
  with r assms(1) show ?thesis
    by (simp add: invalid_activation_def)
qed

theorem activate_user_mismatch_unchanged_witness:
  "activate_user 10 \<lparr>a_email = ''alice@example.com'', a_token = ''guess''\<rparr> small_db =
     (Inl (HTTPException 400 ''Invalid or expired activation token.'' []), small_db)
   \<and> alice_activation \<in> set (activation_tokens small_db)
   \<and> \<not> is_active alice"
proof -
  let ?p = "\<lparr>a_email = ''alice@example.com'', a_token = ''guess''\<rparr>"
  have h1: "find (\<lambda>u. email u = a_email ?p) (users small_db) = Some alice"
    using lookup_alice by simp
  have h2: "\<not> is_active alice"
    by (simp add: alice_def)
  have h4: "token alice_activation \<noteq> a_token ?p"
    by (simp add: alice_activation_def)
  from activate_user_mismatch_unchanged [OF h1 h2 alice_token h4, of 10]
  have "activate_user 10 ?p small_db =
          (Inl (HTTPException 400 ''Invalid or expired activation token.'' []), small_db)"
    and "alice_activation \<in> set (activation_tokens (snd (activate_user 10 ?p small_db)))"
    by blast+
  then show ?thesis using h2 by simp
qed

text \<open>
  C4. For every activation request where the user exists and is inactive, the stored
  activation token the endpoint selects for that user matches the supplied token string,
  and the token's expiry (normalized to UTC when stored naive) is at or before the current
  UTC instant: the endpoint deletes that token row, commits, and fails with 400 carrying
  the generic invalid-or-expired message; after the call no row with that identifier is in
  the activation token table.
\<close>

theorem activate_user_expired_deletes:
  assumes "find (\<lambda>u. email u = a_email payload) (users db) = Some user"
    and "\<not> is_active user"
    and "find (\<lambda>t. user_id t = uid user) (activation_tokens db) = Some token_record"
    and "token token_record = a_token payload"
    and "dt_le (ensure_utc (expires_at token_record)) (utc_now now) = Some True"
  shows "activate_user now payload db =
           (Inl (HTTPException 400 ''Invalid or expired activation token.'' []),
            db\<lparr>activation_tokens :=
                 filter (\<lambda>t. tid t \<noteq> tid token_record) (activation_tokens db)\<rparr>)
         \<and> token_record \<notin> set (activation_tokens (snd (activate_user now payload db)))
         \<and> \<not> list_ex (\<lambda>t. tid t = tid token_record)
               (activation_tokens (snd (activate_user now payload db)))"
proof -
  have r: "activate_user now payload db =
           (Inl invalid_activation,
            db\<lparr>activation_tokens :=
                 delete_where (\<lambda>t. tid t = tid token_record) (activation_tokens db)\<rparr>)"
    using assms by (simp add: activate_user_def)
  show ?thesis
    unfolding r by (simp add: invalid_activation_def delete_where_def list_ex_iff)
qed

theorem activate_user_expired_deletes_witness:
  "activate_user 1000 \<lparr>a_email = ''alice@example.com'', a_token = ''act-alice''\<rparr> small_db =
     (Inl (HTTPException 400 ''Invalid or expired activation token.'' []),
      small_db\<lparr>activation_tokens := []\<rparr>)"
proof -
  have e: "dt_le (ensure_utc (expires_at alice_activation)) (utc_now 1000) = Some True"
    by (simp add: dt_le_def ensure_utc_def utc_now_def alice_activation_def)
  have t: "token alice_activation = a_token \<lparr>a_email = ''alice@example.com'', a_token = ''act-alice''\<rparr>"
    by (simp add: alice_activation_def)
  have f: "filter (\<lambda>t. tid t \<noteq> tid alice_activation) (activation_tokens small_db) = []"
    by (simp add: small_db_def)
  show ?thesis
    using activate_user_expired_deletes
      [of "\<lparr>a_email = ''alice@example.com'', a_token = ''act-alice''\<rparr>" small_db alice
          alice_activation 1000] lookup_alice alice_token e t f
    by (simp add: alice_def)
qed

section \<open>Login\<close>

text \<open>
  C2. For the login endpoint: for every request with an email not present in the users
  table, and for every request with a present email but a password that fails
  verification, the handler raises 401 with the identical detail text in both cases; for
  every request with a present email, a verifying password and an inactive user, it raises
  403. The database is unchanged in the three cases.
\<close>

theorem login_user_failures:
  "(find (\<lambda>u. email u = l_email payload) (users db) = None \<longrightarrow>
      login_user verify_password jwt_manager settings now payload db =
        (Inl (HTTPException 401 ''Invalid email or password.'' []), db))
   \<and> (\<forall>user. find (\<lambda>u. email u = l_email payload) (users db) = Some user
          \<and> \<not> verify_password user (l_password payload) \<longrightarrow>
      login_user verify_password jwt_manager settings now payload db =
        (Inl (HTTPException 401 ''Invalid email or password.'' []), db))
   \<and> (\<forall>user. find (\<lambda>u. email u = l_email payload) (users db) = Some user
          \<and> verify_password user (l_password payload) \<and> \<not> is_active user \<longrightarrow>
      login_user verify_password jwt_manager settings now payload db =
        (Inl (HTTPException 403 ''User account is not activated.'' []), db))"
  by (simp add: login_user_def)

theorem login_user_failures_witness:
  "login_user small_verify small_jwt default_settings 10
     \<lparr>l_email = ''carol@example.com'', l_password = ''b''\<rparr> small_db =
     (Inl (HTTPException 401 ''Invalid email or password.'' []), small_db)
   \<and> login_user small_verify small_jwt default_settings 10
     \<lparr>l_email = ''bob@example.com'', l_password = ''wrong''\<rparr> small_db =
     (Inl (HTTPException 401 ''Invalid email or password.'' []), small_db)
   \<and> login_user small_verify small_jwt default_settings 10
     \<lparr>l_email = ''alice@example.com'', l_password = ''a''\<rparr> small_db =
     (Inl (HTTPException 403 ''User account is not activated.'' []), small_db)"
proof -
  have a: "\<not> small_verify bob ''wrong''"
    by (simp add: small_verify_def bob_def)
  have b: "small_verify alice ''a''" "\<not> is_active alice"
    by (simp_all add: small_verify_def alice_def)
  show ?thesis
    using login_user_failures
        [of "\<lparr>l_email = ''carol@example.com'', l_password = ''b''\<rparr>" small_db small_verify
            small_jwt default_settings 10]
      login_user_failures
        [of "\<lparr>l_email = ''bob@example.com'', l_password = ''wrong''\<rparr>" small_db small_verify
            small_jwt default_settings 10]
      login_user_failures
        [of "\<lparr>l_email = ''alice@example.com'', l_password = ''a''\<rparr>" small_db small_verify
            small_jwt default_settings 10]
      lookup_nobody lookup_bob lookup_alice a b
    by simp
qed

section \<open>Logout\<close>

text \<open>
  C7. For every logout request, the endpoint returns 200 with the message "Logged out.":
  when the verification of the supplied refresh token fails it returns success and the
  database is untouched, and when the verification passes it deletes every refresh token
  row whose token value equals the supplied string (no row changes when none matches) and
  returns the same success message.
\<close>

theorem logout_user_always_succeeds:
  "logout_route jwt_manager tok db = \<lparr>status = 200, body = [(''message'', ''Logged out.'')]\<rparr>
   \<and> fst (logout_user jwt_manager tok db) = Inr ''Logged out.''
   \<and> (\<forall>e. verify_refresh_token_or_raise jwt_manager tok = Inl e \<longrightarrow>
         snd (logout_user jwt_manager tok db) = db)
   \<and> (\<forall>u. verify_refresh_token_or_raise jwt_manager tok = Inr u \<longrightarrow>
         snd (logout_user jwt_manager tok db) =
           db\<lparr>refresh_tokens := filter (\<lambda>t. token t \<noteq> tok) (refresh_tokens db)\<rparr>
         \<and> (\<not> list_ex (\<lambda>t. token t = tok) (refresh_tokens db) \<longrightarrow>
              snd (logout_user jwt_manager tok db) = db))"
proof -
  have nop: "filter (\<lambda>t. token t \<noteq> tok) (refresh_tokens db) = refresh_tokens db"
    if "\<not> list_ex (\<lambda>t. token t = tok) (refresh_tokens db)"
    using that by (simp add: list_ex_iff filter_id_conv)
  show ?thesis
    by (cases "verify_refresh_token_or_raise jwt_manager tok")
      (auto simp: logout_route_def logout_user_def message_response_def delete_where_def nop)
qed

theorem logout_user_always_succeeds_witness:
  "logout_route small_jwt ''junk'' small_db = \<lparr>status = 200, body = [(''message'', ''Logged out.'')]\<rparr>
   \<and> snd (logout_user small_jwt ''junk'' small_db) = small_db
   \<and> logout_route small_jwt ''rt-bob'' small_db = \<lparr>status = 200, body = [(''message'', ''Logged out.'')]\<rparr>
   \<and> refresh_tokens (snd (logout_user small_jwt ''rt-bob'' small_db)) = [bob_refresh_old]"
proof -
  have v1: "verify_refresh_token_or_raise small_jwt ''junk'' = Inl ''Invalid token''"
    by (simp add: small_jwt_def)
  have v2: "verify_refresh_token_or_raise small_jwt ''rt-bob'' = Inr ()"
    by (simp add: small_jwt_def)
  have f: "filter (\<lambda>t. token t \<noteq> ''rt-bob'') (refresh_tokens small_db) = [bob_refresh_old]"
    by (simp add: small_db_def bob_refresh_def bob_refresh_old_def)
  show ?thesis
    using logout_user_always_succeeds [of small_jwt "''junk''" small_db]
      logout_user_always_succeeds [of small_jwt "''rt-bob''" small_db] v1 v2 f
    by simp
qed

section \<open>The bearer-auth dependency\<close>

text \<open>
  C9. The claim: \<open>get_current_user\<close> raises 401 with \<open>WWW-Authenticate: Bearer\<close> exactly
  when the bearer token is missing, malformed, not correctly signed, or lacks the subject
  claim, or the user looked up by that claim does not exist or is inactive, and in every
  other case returns the loaded user. The dependency at a token that decodes to the
  subject 2 of the small database, an existing active user: it raises \<open>AttributeError\<close>,
  which the framework answers with 500, and returns no user. At a token for the inactive
  user 1 and at one for a user that does not exist it raises \<open>AttributeError\<close> as well,
  not 401.
\<close>

theorem get_current_user_attribute_error:
  "small_decode ''at-bob'' SECRET_KEY [ALGORITHM] = Some [(''sub'', 2)]
   \<and> find (\<lambda>u. uid u = 2) (users small_db) = Some bob
   \<and> is_active bob
   \<and> get_current_user small_decode (Some ''at-bob'') small_db = Inl AttributeError
   \<and> get_current_user small_decode (Some ''at-alice'') small_db = Inl AttributeError
   \<and> get_current_user small_decode (Some ''at-ghost'') small_db = Inl AttributeError
   \<and> error_response AttributeError = \<lparr>status = 500, body = []\<rparr>"
proof -
  have d: "small_decode ''at-bob'' SECRET_KEY [ALGORITHM] = Some [(''sub'', 2)]"
    "small_decode ''at-alice'' SECRET_KEY [ALGORITHM] = Some [(''sub'', 1)]"
    "small_decode ''at-ghost'' SECRET_KEY [ALGORITHM] = Some [(''sub'', 99)]"
    by (simp_all add: small_decode_def)
  have a: "is_active bob"
    by (simp add: bob_def)
  have g: "get_current_user small_decode (Some ''at-bob'') small_db = Inl AttributeError"
    "get_current_user small_decode (Some ''at-alice'') small_db = Inl AttributeError"
    "get_current_user small_decode (Some ''at-ghost'') small_db = Inl AttributeError"
    using d
      get_current_user_decoded [of small_decode "''at-bob''" "[(''sub'', 2)]" 2 small_db]
      get_current_user_decoded [of small_decode "''at-alice''" "[(''sub'', 1)]" 1 small_db]
      get_current_user_decoded [of small_decode "''at-ghost''" "[(''sub'', 99)]" 99 small_db]
    by simp_all
  have e: "error_response AttributeError = \<lparr>status = 500, body = []\<rparr>"
    by (simp add: error_response_def)
  from d(1) get_bob a g e show ?thesis by simp
qed

section \<open>Refresh\<close>

text \<open>
  C1. The claim: for a refresh request whose token decodes, matches a persisted row, names
  an existing active user and has not expired, the refresh endpoint returns a 200 response
  whose body contains a newly signed access token. The handler at such a request (the
  token \<open>rt-bob\<close> of the small database, at the instant 2000, before its expiry 5000):
  it returns \<open>None\<close>, and the route answers 500 with no access token in the body.
\<close>

theorem refresh_access_token_returns_nothing:
  "decode_refresh_token small_jwt ''rt-bob'' = Inr [(''user_id'', 2)]
   \<and> find (\<lambda>t. token t = ''rt-bob'') (refresh_tokens small_db) = Some bob_refresh
   \<and> find (\<lambda>u. Some (uid u) = Some 2) (users small_db) = Some bob
   \<and> is_active bob
   \<and> dt_le (ensure_utc (expires_at bob_refresh)) (utc_now 2000) = Some False
   \<and> refresh_access_token small_jwt 2000 ''rt-bob'' small_db = (Inr None, small_db)
   \<and> refresh_route small_jwt 2000 ''rt-bob'' small_db = \<lparr>status = 500, body = []\<rparr>"
proof -
  have d: "decode_refresh_token small_jwt ''rt-bob'' = Inr [(''user_id'', 2)]"
    by (simp add: small_jwt_def)
  have u: "find (\<lambda>u. Some (uid u) = Some 2) (users small_db) = Some bob"
    using get_bob by simp
  have a: "is_active bob"
    by (simp add: bob_def)
  have e: "dt_le (ensure_utc (expires_at bob_refresh)) (utc_now 2000) = Some False"
    by (simp add: dt_le_def ensure_utc_def utc_now_def bob_refresh_def)
  have r: "refresh_access_token small_jwt 2000 ''rt-bob'' small_db = (Inr None, small_db)"
    using d find_bob_refresh u a e by (simp add: refresh_access_token_def)
  have "refresh_route small_jwt 2000 ''rt-bob'' small_db = \<lparr>status = 500, body = []\<rparr>"
    by (simp add: refresh_route_def r)
  with d find_bob_refresh u a e r show ?thesis by simp
qed

section \<open>The cleanup task\<close>

text \<open>
  C6. One run of \<open>cleanup_expired_tokens\<close> deletes exactly those rows of the three token
  tables (activation, password reset, refresh) whose expiry instant is at or before the
  current UTC instant, leaves every row with a later expiry unchanged (and in place), and
  returns the total number of rows deleted across the three tables; no other table
  changes. Consequently a second run with no newly expired rows (at the same instant, or
  at any instant at which no remaining row has expired) returns 0 and changes nothing.
\<close>

theorem cleanup_expired_tokens_exact:
  "activation_tokens (snd (cleanup_expired_tokens now db)) =
     filter (\<lambda>t. now < utc_instant (expires_at t)) (activation_tokens db)
   \<and> password_reset_tokens (snd (cleanup_expired_tokens now db)) =
     filter (\<lambda>t. now < utc_instant (expires_at t)) (password_reset_tokens db)
   \<and> refresh_tokens (snd (cleanup_expired_tokens now db)) =
     filter (\<lambda>t. now < utc_instant (expires_at t)) (refresh_tokens db)
   \<and> snd (cleanup_expired_tokens now db) =
       db\<lparr>activation_tokens := activation_tokens (snd (cleanup_expired_tokens now db)),
          password_reset_tokens := password_reset_tokens (snd (cleanup_expired_tokens now db)),
          refresh_tokens := refresh_tokens (snd (cleanup_expired_tokens now db))\<rparr>
   \<and> fst (cleanup_expired_tokens now db) =
       int (length (filter (\<lambda>t. utc_instant (expires_at t) \<le> now) (activation_tokens db)))
       + int (length (filter (\<lambda>t. utc_instant (expires_at t) \<le> now) (password_reset_tokens db)))
       + int (length (filter (\<lambda>t. utc_instant (expires_at t) \<le> now) (refresh_tokens db)))
   \<and> fst (cleanup_expired_tokens now db) =
       (int (length (activation_tokens db)) + int (length (password_reset_tokens db))
        + int (length (refresh_tokens db)))
       - (int (length (activation_tokens (snd (cleanup_expired_tokens now db))))
          + int (length (password_reset_tokens (snd (cleanup_expired_tokens now db))))
          + int (length (refresh_tokens (snd (cleanup_expired_tokens now db)))))
   \<and> cleanup_expired_tokens now (snd (cleanup_expired_tokens now db)) =
       (0, snd (cleanup_expired_tokens now db))
   \<and> (\<forall>later.
         \<not> list_ex (expired_at later) (activation_tokens (snd (cleanup_expired_tokens now db)))
         \<and> \<not> list_ex (expired_at later) (password_reset_tokens (snd (cleanup_expired_tokens now db)))
         \<and> \<not> list_ex (expired_at later) (refresh_tokens (snd (cleanup_expired_tokens now db)))
         \<longrightarrow> cleanup_expired_tokens later (snd (cleanup_expired_tokens now db)) =
               (0, snd (cleanup_expired_tokens now db)))"
proof -
  let ?db' = "snd (cleanup_expired_tokens now db)"
  have n: "(\<lambda>t. \<not> expired_at now t) = (\<lambda>t. now < utc_instant (expires_at t))"
    by (auto simp: expired_at_def)
  have e: "expired_at now = (\<lambda>t. utc_instant (expires_at t) \<le> now)"
    by (auto simp: expired_at_def)
  have db': "?db' =
      db\<lparr>activation_tokens := delete_where (expired_at now) (activation_tokens db),
         password_reset_tokens := delete_where (expired_at now) (password_reset_tokens db),
         refresh_tokens := delete_where (expired_at now) (refresh_tokens db)\<rparr>"
    by (simp add: cleanup_expired_tokens_def Let_def)
  have total: "fst (cleanup_expired_tokens now db) =
      rowcount (expired_at now) (activation_tokens db)
      + rowcount (expired_at now) (password_reset_tokens db)
      + rowcount (expired_at now) (refresh_tokens db)"
    by (simp add: cleanup_expired_tokens_def Let_def)
  have a: "activation_tokens ?db' = filter (\<lambda>t. now < utc_instant (expires_at t)) (activation_tokens db)"
    and p: "password_reset_tokens ?db' = filter (\<lambda>t. now < utc_instant (expires_at t)) (password_reset_tokens db)"
    and r: "refresh_tokens ?db' = filter (\<lambda>t. now < utc_instant (expires_at t)) (refresh_tokens db)"
    by (simp_all add: db' delete_where_def n)
  have frame: "?db' = db\<lparr>activation_tokens := activation_tokens ?db',
          password_reset_tokens := password_reset_tokens ?db',
          refresh_tokens := refresh_tokens ?db'\<rparr>"
    by (simp add: db')
  have count: "fst (cleanup_expired_tokens now db) =
       int (length (filter (\<lambda>t. utc_instant (expires_at t) \<le> now) (activation_tokens db)))
       + int (length (filter (\<lambda>t. utc_instant (expires_at t) \<le> now) (password_reset_tokens db)))
       + int (length (filter (\<lambda>t. utc_instant (expires_at t) \<le> now) (refresh_tokens db)))"
    by (simp add: total rowcount_def e)
  have diff: "fst (cleanup_expired_tokens now db) =
       (int (length (activation_tokens db)) + int (length (password_reset_tokens db))
        + int (length (refresh_tokens db)))
       - (int (length (activation_tokens ?db')) + int (length (password_reset_tokens ?db'))
          + int (length (refresh_tokens ?db')))"
    by (simp add: total rowcount_deleted db')
  have none: "\<not> list_ex (expired_at now) (activation_tokens ?db')"
      "\<not> list_ex (expired_at now) (password_reset_tokens ?db')"
      "\<not> list_ex (expired_at now) (refresh_tokens ?db')"
    by (simp_all add: db' list_ex_delete_where)
  have again: "cleanup_expired_tokens now ?db' = (0, ?db')"
    by (rule cleanup_nothing_expired [OF none])
  have later: "\<forall>later.
         \<not> list_ex (expired_at later) (activation_tokens ?db')
         \<and> \<not> list_ex (expired_at later) (password_reset_tokens ?db')
         \<and> \<not> list_ex (expired_at later) (refresh_tokens ?db')
         \<longrightarrow> cleanup_expired_tokens later ?db' = (0, ?db')"
    using cleanup_nothing_expired by blast
  from a p r frame count diff again later show ?thesis
    by blast
qed

theorem cleanup_expired_tokens_exact_witness:
  "cleanup_expired_tokens 1000 small_db =
     (2, small_db\<lparr>activation_tokens := [], refresh_tokens := [bob_refresh]\<rparr>)
   \<and> cleanup_expired_tokens 1000 (snd (cleanup_expired_tokens 1000 small_db)) =
     (0, snd (cleanup_expired_tokens 1000 small_db))
   \<and> cleanup_expired_tokens 2999 (snd (cleanup_expired_tokens 1000 small_db)) =
     (0, snd (cleanup_expired_tokens 1000 small_db))"
proof -
  let ?db' = "snd (cleanup_expired_tokens 1000 small_db)"
  note t = cleanup_expired_tokens_exact [of 1000 small_db]
  have fa: "filter (\<lambda>t. 1000 < utc_instant (expires_at t)) (activation_tokens small_db) = []"
    and fp: "filter (\<lambda>t. 1000 < utc_instant (expires_at t)) (password_reset_tokens small_db) = [bob_reset]"
    and fr: "filter (\<lambda>t. 1000 < utc_instant (expires_at t)) (refresh_tokens small_db) = [bob_refresh]"
    by (simp_all add: small_db_def utc_instant_def alice_activation_def bob_reset_def
        bob_refresh_def bob_refresh_old_def)
  have ca: "filter (\<lambda>t. utc_instant (expires_at t) \<le> 1000) (activation_tokens small_db) = [alice_activation]"
    and cp: "filter (\<lambda>t. utc_instant (expires_at t) \<le> 1000) (password_reset_tokens small_db) = []"
    and cr: "filter (\<lambda>t. utc_instant (expires_at t) \<le> 1000) (refresh_tokens small_db) = [bob_refresh_old]"
    by (simp_all add: small_db_def utc_instant_def alice_activation_def bob_reset_def
        bob_refresh_def bob_refresh_old_def)
  have a': "activation_tokens ?db' = []" and p': "password_reset_tokens ?db' = [bob_reset]"
    and r': "refresh_tokens ?db' = [bob_refresh]"
    using t fa fp fr by simp_all
  have n: "fst (cleanup_expired_tokens 1000 small_db) = 2"
    using t ca cp cr by simp
  have "?db' = small_db\<lparr>activation_tokens := activation_tokens ?db',
          password_reset_tokens := password_reset_tokens ?db',
          refresh_tokens := refresh_tokens ?db'\<rparr>"
    using t by blast
  then have d: "?db' = small_db\<lparr>activation_tokens := [], refresh_tokens := [bob_refresh]\<rparr>"
    unfolding a' p' r' by (simp add: small_db_def)
  have first: "cleanup_expired_tokens 1000 small_db =
     (2, small_db\<lparr>activation_tokens := [], refresh_tokens := [bob_refresh]\<rparr>)"
    using n d by (simp add: prod_eq_iff)
  have second: "cleanup_expired_tokens 1000 ?db' = (0, ?db')"
    using t by blast
  have l: "\<not> list_ex (expired_at 2999) (activation_tokens ?db')"
      "\<not> list_ex (expired_at 2999) (password_reset_tokens ?db')"
      "\<not> list_ex (expired_at 2999) (refresh_tokens ?db')"
    unfolding a' p' r'
    by (simp_all add: expired_at_def utc_instant_def bob_reset_def bob_refresh_def)
  have third: "cleanup_expired_tokens 2999 ?db' = (0, ?db')"
    using t l by blast
  from first second third show ?thesis by blast
qed

section \<open>Favorites\<close>

text \<open>
  C8. For every existing movie and every authenticated user, the association table having
  its primary key (no pair twice): the add-favorite operation is idempotent, calling it
  twice in succession leaves exactly one association row for the user and the movie, both
  calls return success and the second call changes nothing; and the remove-favorite
  operation on a movie the user has not favorited returns success and leaves the database
  as it was, creating or deleting no association row.
\<close>

theorem favorites_idempotent:
  assumes "find (\<lambda>m. m_id m = movie_id) (movies db) = Some movie"
    and "distinct (user_favorites db)"
  shows "fst (add_to_favorites movie_id user db) = Inr ''Added to favorites''
     \<and> fst (add_to_favorites movie_id user (snd (add_to_favorites movie_id user db)))
         = Inr ''Added to favorites''
     \<and> snd (add_to_favorites movie_id user (snd (add_to_favorites movie_id user db)))
         = snd (add_to_favorites movie_id user db)
     \<and> count_list
          (user_favorites
             (snd (add_to_favorites movie_id user (snd (add_to_favorites movie_id user db)))))
          (uid user, movie_id) = 1
     \<and> ((uid user, movie_id) \<notin> set (user_favorites db) \<longrightarrow>
          remove_from_favorites movie_id user db = (Inr ''Removed from favorites'', db))"
proof -
  let ?db1 = "snd (add_to_favorites movie_id user db)"
  note first = add_to_favorites_result [OF assms(1), of user]
  have m1: "find (\<lambda>m. m_id m = movie_id) (movies ?db1) = Some movie"
    using assms(1) by (simp add: first)
  have in1: "(uid user, movie_id) \<in> set (user_favorites ?db1)"
    by (simp add: first)
  have second: "add_to_favorites movie_id user ?db1 = (Inr ''Added to favorites'', ?db1)"
    using add_to_favorites_result [OF m1, of user] in1 by simp
  have d1: "distinct (user_favorites ?db1)"
    using assms(2) by (simp add: first)
  have one: "count_list (user_favorites ?db1) (uid user, movie_id) = 1"
    by (rule count_list_distinct [OF d1 in1])
  have rm: "remove_from_favorites movie_id user db = (Inr ''Removed from favorites'', db)"
    if "(uid user, movie_id) \<notin> set (user_favorites db)"
    using that favorite_iff [OF assms(1), of user] assms(1)
    by (simp add: remove_from_favorites_def)
  show ?thesis
    using first second one rm by simp
qed

theorem favorites_idempotent_witness:
  "add_to_favorites 2 bob small_db =
     (Inr ''Added to favorites'', small_db\<lparr>user_favorites := [(2, 1), (2, 2)]\<rparr>)
   \<and> add_to_favorites 2 bob (snd (add_to_favorites 2 bob small_db)) =
     (Inr ''Added to favorites'', small_db\<lparr>user_favorites := [(2, 1), (2, 2)]\<rparr>)
   \<and> remove_from_favorites 2 bob small_db = (Inr ''Removed from favorites'', small_db)"
proof -
  have d: "distinct (user_favorites small_db)"
    by (simp add: small_db_def)
  note t = favorites_idempotent [OF find_movie_2 d, of bob]
  have absent: "(uid bob, 2) \<notin> set (user_favorites small_db)"
    by (simp add: small_db_def bob_def)
  have first: "add_to_favorites 2 bob small_db =
     (Inr ''Added to favorites'', small_db\<lparr>user_favorites := [(2, 1), (2, 2)]\<rparr>)"
    using find_movie_2 absent
    by (simp add: add_to_favorites_def favorites_def small_db_def bob_def mk_movie_def)
  have second: "add_to_favorites 2 bob (snd (add_to_favorites 2 bob small_db)) =
      (Inr ''Added to favorites'', snd (add_to_favorites 2 bob small_db))"
    using t by (simp add: prod_eq_iff)
  have third: "remove_from_favorites 2 bob small_db = (Inr ''Removed from favorites'', small_db)"
    using t absent by blast
  from first second third show ?thesis by simp
qed

section \<open>The movie list\<close>

text \<open>
  C5. For every movie-list request (one that passes the declared parameter constraints, so
  that the handler runs), the handler returns an envelope whose total equals the row count
  of the filtered but unpaginated query, whose pages equals ceiling(total/size) when
  total > 0 (the least number of pages of that size that hold all rows) and equals 1 when
  total = 0; the returned items are the rows of the sorted filtered query from offset
  (page-1)*size on, at most size of them. The sorted query has the rows of the filtered
  one, in descending order of the sort column.
\<close>

theorem get_movies_pagination:
  assumes "valid_query q"
  shows "\<exists>r col. get_movies ops q db = Inr r \<and> sort_column (q_sort_by q) = Some col
     \<and> total r = int (length (movies_where ops q db))
     \<and> pages r = (if total r = 0 then 1
                  else \<lceil>real_of_int (total r) / real_of_int (q_size q)\<rceil>)
     \<and> (0 < total r \<longrightarrow> (pages r - 1) * q_size q < total r \<and> total r \<le> pages r * q_size q)
     \<and> items r = map model_validate
          (take (nat (q_size q)) (drop (nat ((q_page q - 1) * q_size q))
             (order_by_desc col (movies_where ops q db))))
     \<and> int (length (items r)) \<le> q_size q
     \<and> int (length (items r)) = max 0 (min (q_size q) (total r - (q_page q - 1) * q_size q))
     \<and> mset (order_by_desc col (movies_where ops q db)) = mset (movies_where ops q db)
     \<and> sorted_wrt (\<lambda>a b. col b \<le> col a) (order_by_desc col (movies_where ops q db))
     \<and> r_page r = q_page q"
proof -
  from valid_query_sort_column [OF assms] obtain col
    where col: "sort_column (q_sort_by q) = Some col" by blast
  let ?rows = "movies_where ops q db"
  let ?n = "int (length ?rows)"
  let ?r = "\<lparr>items = map model_validate
            (take (nat (q_size q)) (drop (nat ((q_page q - 1) * q_size q))
               (order_by_desc col ?rows))),
         total = ?n, r_page = q_page q, pages = page_count ?n (q_size q)\<rparr>"
  have r: "get_movies ops q db = Inr ?r"
    by (rule get_movies_valid [OF assms col])
  have sz: "1 \<le> q_size q" and pg: "1 \<le> q_page q"
    using assms by (simp_all add: valid_query_def)
  have p1: "pages ?r = (if total ?r = 0 then 1
                  else \<lceil>real_of_int (total ?r) / real_of_int (q_size q)\<rceil>)"
    by (simp add: page_count_def)
  have p2: "0 < total ?r \<longrightarrow>
      (pages ?r - 1) * q_size q < total ?r \<and> total ?r \<le> pages ?r * q_size q"
    using page_count_bounds [of ?n "q_size q"] sz by simp
  have off: "0 \<le> (q_page q - 1) * q_size q"
    using sz pg by simp
  have "length (items ?r) = min (nat (q_size q)) (length ?rows - nat ((q_page q - 1) * q_size q))"
    by (simp add: order_by_desc_length)
  then have len: "int (length (items ?r)) = max 0 (min (q_size q) (total ?r - (q_page q - 1) * q_size q))"
    using sz off by simp linarith
  have le: "int (length (items ?r)) \<le> q_size q"
    using sz by simp
  show ?thesis
    using r col p1 p2 len le order_by_desc_mset [of col ?rows] order_by_desc_sorted [of col ?rows]
    by (intro exI [of _ ?r] exI [of _ col]) simp
qed

theorem get_movies_pagination_witness:
  "valid_query small_query
   \<and> get_movies small_ops small_query small_db =
       Inr \<lparr>items = [model_validate (mk_movie 2 ''b'' 2010 8 9)], total = 3, r_page = 2, pages = 3\<rparr>"
proof -
  have v: "valid_query small_query"
    by (simp add: valid_query_def small_query_def)
  have c: "sort_column (q_sort_by small_query) = Some (\<lambda>m. real_of_int (m_year m))"
    by (simp add: sort_column_def small_query_def)
  from get_movies_pagination [OF v, of small_ops small_db] obtain r col where
    r: "get_movies small_ops small_query small_db = Inr r"
    and col: "sort_column (q_sort_by small_query) = Some col"
    and t: "total r = int (length (movies_where small_ops small_query small_db))"
    and p: "pages r = (if total r = 0 then 1
                  else \<lceil>real_of_int (total r) / real_of_int (q_size small_query)\<rceil>)"
    and i: "items r = map model_validate
          (take (nat (q_size small_query))
             (drop (nat ((q_page small_query - 1) * q_size small_query))
                (order_by_desc col (movies_where small_ops small_query small_db))))"
    and g: "r_page r = q_page small_query"
    by blast
  have col': "col = (\<lambda>m. real_of_int (m_year m))"
    using c col by simp
  have t': "total r = 3"
    using t by (simp add: small_movies_where)
  have p': "pages r = 3"
    using p t' by (simp add: small_query_def)
  have i': "items r = [model_validate (mk_movie 2 ''b'' 2010 8 9)]"
    using i unfolding col' small_movies_where small_sorted by (simp add: small_query_def)
  have g': "r_page r = 2"
    using g by (simp add: small_query_def)
  have "r = \<lparr>items = [model_validate (mk_movie 2 ''b'' 2010 8 9)], total = 3, r_page = 2, pages = 3\<rparr>"
    using t' p' i' g' by (cases r) simp
  with r v show ?thesis by simp
qed

text \<open>
  C3. For every database state and every combination of the remaining parameters, calling
  the movie-list operation with \<open>year = 0\<close> (or \<open>min_imdb = 0\<close>, or \<open>max_price = 0\<close>) returns
  exactly the same response as calling it with that filter absent: a falsy numeric filter
  value applies no filtering condition.
\<close>

theorem get_movies_zero_filter_absent:
  "get_movies ops (q\<lparr>q_year := Some 0\<rparr>) db = get_movies ops (q\<lparr>q_year := None\<rparr>) db
   \<and> get_movies ops (q\<lparr>q_min_imdb := Some 0\<rparr>) db = get_movies ops (q\<lparr>q_min_imdb := None\<rparr>) db
   \<and> get_movies ops (q\<lparr>q_max_price := Some 0\<rparr>) db = get_movies ops (q\<lparr>q_max_price := None\<rparr>) db
   \<and> movies_where ops (q\<lparr>q_year := Some 0\<rparr>) db = movies_where ops (q\<lparr>q_year := None\<rparr>) db
   \<and> movies_where ops (q\<lparr>q_min_imdb := Some 0\<rparr>) db = movies_where ops (q\<lparr>q_min_imdb := None\<rparr>) db
   \<and> movies_where ops (q\<lparr>q_max_price := Some 0\<rparr>) db = movies_where ops (q\<lparr>q_max_price := None\<rparr>) db"
proof -
  have mw: "movies_where ops (q\<lparr>q_year := Some 0\<rparr>) db = movies_where ops (q\<lparr>q_year := None\<rparr>) db"
    "movies_where ops (q\<lparr>q_min_imdb := Some 0\<rparr>) db = movies_where ops (q\<lparr>q_min_imdb := None\<rparr>) db"
    "movies_where ops (q\<lparr>q_max_price := Some 0\<rparr>) db = movies_where ops (q\<lparr>q_max_price := None\<rparr>) db"
    by (simp_all add: movies_where_def)
  have vq: "valid_query (q\<lparr>q_year := Some 0\<rparr>) = valid_query (q\<lparr>q_year := None\<rparr>)"
    "valid_query (q\<lparr>q_min_imdb := Some 0\<rparr>) = valid_query (q\<lparr>q_min_imdb := None\<rparr>)"
    "valid_query (q\<lparr>q_max_price := Some 0\<rparr>) = valid_query (q\<lparr>q_max_price := None\<rparr>)"
    by (simp_all add: valid_query_def)
  have gm: "get_movies ops (q\<lparr>q_year := Some 0\<rparr>) db = get_movies ops (q\<lparr>q_year := None\<rparr>) db"
    "get_movies ops (q\<lparr>q_min_imdb := Some 0\<rparr>) db = get_movies ops (q\<lparr>q_min_imdb := None\<rparr>) db"
    "get_movies ops (q\<lparr>q_max_price := Some 0\<rparr>) db = get_movies ops (q\<lparr>q_max_price := None\<rparr>) db"
    by (simp_all add: get_movies_def mw vq Let_def split: option.splits)
  from gm mw show ?thesis by simp
qed

theorem get_movies_zero_filter_absent_witness:
  "movies_where small_ops (small_query\<lparr>q_year := Some 0\<rparr>) small_db = movies small_db
   \<and> movies_where small_ops (small_query\<lparr>q_year := Some 2010\<rparr>) small_db
       = [mk_movie 2 ''b'' 2010 8 9]
   \<and> get_movies small_ops (small_query\<lparr>q_year := Some 0\<rparr>) small_db =
       Inr \<lparr>items = [model_validate (mk_movie 2 ''b'' 2010 8 9)], total = 3, r_page = 2, pages = 3\<rparr>
   \<and> get_movies small_ops (small_query\<lparr>q_min_imdb := Some 0\<rparr>) small_db =
       Inr \<lparr>items = [model_validate (mk_movie 2 ''b'' 2010 8 9)], total = 3, r_page = 2, pages = 3\<rparr>
   \<and> get_movies small_ops (small_query\<lparr>q_max_price := Some 0\<rparr>) small_db =
       Inr \<lparr>items = [model_validate (mk_movie 2 ''b'' 2010 8 9)], total = 3, r_page = 2, pages = 3\<rparr>"
proof -
  note t = get_movies_zero_filter_absent [of small_ops small_query small_db]
  have same: "small_query\<lparr>q_year := None\<rparr> = small_query"
      "small_query\<lparr>q_min_imdb := None\<rparr> = small_query"
      "small_query\<lparr>q_max_price := None\<rparr> = small_query"
    by (simp_all add: small_query_def)
  have v: "valid_query small_query"
    by (simp add: valid_query_def small_query_def)
  have c: "sort_column (q_sort_by small_query) = Some (\<lambda>m. real_of_int (m_year m))"
    by (simp add: sort_column_def small_query_def)
  have g: "get_movies small_ops small_query small_db =
       Inr \<lparr>items = [model_validate (mk_movie 2 ''b'' 2010 8 9)], total = 3, r_page = 2, pages = 3\<rparr>"
    unfolding get_movies_valid [OF v c] small_movies_where small_sorted
    by (simp add: small_query_def page_count_def)
  have y: "movies_where small_ops (small_query\<lparr>q_year := Some 2010\<rparr>) small_db
       = [mk_movie 2 ''b'' 2010 8 9]"
    by (simp add: movies_where_def small_query_def small_db_def mk_movie_def)
  have w: "movies_where small_ops (small_query\<lparr>q_year := Some 0\<rparr>) small_db = movies small_db"
    using t small_movies_where unfolding same by (simp add: small_db_def)
  show ?thesis
    using t g y w unfolding same by simp
qed

end
